theory Spec2Isabelle
  imports Complex_Main "HOL-Library.Sublist"
begin

section \<open>Python values as the tool handlers see them\<close>

text \<open>
  The handlers receive JSON-derived arguments (\<open>str\<close>, \<open>Optional[str]\<close>,
  \<open>List[Dict[str, str]]\<close>, \<open>List[Dict[str, Any]]\<close>, ...) and probe the value returned by
  the pywa client by duck typing (\<open>bool(result)\<close>, \<open>getattr(result, 'id', ...)\<close>,
  \<open>str(result)\<close>). A value of type \<open>Any\<close> is a \<open>pyval\<close>: the JSON shapes, plus
  \<open>PObj\<close> for an instance of any other class, described by exactly the observations the
  handlers make of it: its class name, its truth value, its attributes, its \<open>str()\<close> and,
  when it is iterable, its items.

  A Python \<open>str\<close> is a \<open>string\<close> whose characters stand for the code points that
  \<open>len\<close> counts. A dictionary is an association list of its items in insertion order,
  each key once.

  The arguments of a tool are JSON values and hold no \<open>PObj\<close>; the operations that the
  handlers apply to arguments only (\<open>len\<close>, \<open>in\<close>, subscription, \<open>.get\<close>) treat a \<open>PObj\<close>
  as a value that does not support them.
\<close>

datatype pyval =
    PNone
  | PBool bool
  | PInt int
  | PFloat real
  | PStr string
  | PList "pyval list"
  | PDict "(string \<times> pyval) list"
  | PObj string bool "(string \<times> pyval) list" string "pyval list option"

type_synonym pydict = "(string \<times> pyval) list"

text \<open>
  The exceptions the built-in operations of the handlers can raise on a value of type
  \<open>Any\<close>: \<open>TypeError\<close> from \<open>len(v)\<close>, from \<open>for x in v\<close>, from \<open>k in v\<close>, from
  \<open>v[k]\<close>, \<open>KeyError\<close> from \<open>d[k]\<close>, and \<open>AttributeError\<close> from \<open>v.get\<close>. All of them
  derive from \<open>Exception\<close>.
\<close>

datatype py_fault =
    NoLen pyval
  | NotIterable pyval
  | NotContainer pyval
  | BadSubscript pyval
  | KeyError string
  | NoAttribute pyval string

text \<open>
  What the interpreter prints is not part of the repository: \<open>str(v)\<close> of a built-in value
  other than a \<open>str\<close> (its \<open>repr\<close>), and \<open>str(e)\<close> of an exception raised by a built-in
  operation. Both are parameters of the model.
\<close>

record python =
  str_builtin :: "pyval \<Rightarrow> string"
  str_fault :: "py_fault \<Rightarrow> string"

fun py_str :: "python \<Rightarrow> pyval \<Rightarrow> string" where
  "py_str P (PStr s) = s"
| "py_str P (PObj cls truth attrs rendering items) = rendering"
| "py_str P v = str_builtin P v"

fun py_bool :: "pyval \<Rightarrow> bool" where
  "py_bool PNone = False"
| "py_bool (PBool b) = b"
| "py_bool (PInt i) = (i \<noteq> 0)"
| "py_bool (PFloat x) = (x \<noteq> 0)"
| "py_bool (PStr s) = (s \<noteq> [])"
| "py_bool (PList xs) = (xs \<noteq> [])"
| "py_bool (PDict kvs) = (kvs \<noteq> [])"
| "py_bool (PObj cls truth attrs rendering items) = truth"

text \<open>
  The attribute \<open>name\<close> of a value, for the names the handlers probe (\<open>id\<close>,
  \<open>success\<close>, \<open>name\<close>, \<open>language\<close>, \<open>status\<close>, \<open>category\<close>): none of the built-in
  types defines any of them. \<open>py_getattr\<close> is \<open>getattr(v, name, default)\<close>.
\<close>

fun py_attr :: "pyval \<Rightarrow> string \<Rightarrow> pyval option" where
  "py_attr (PObj cls truth attrs rendering items) name = map_of attrs name"
| "py_attr v name = None"

definition py_getattr :: "pyval \<Rightarrow> string \<Rightarrow> pyval \<Rightarrow> pyval" where
  "py_getattr v name dflt = (case py_attr v name of Some x \<Rightarrow> x | None \<Rightarrow> dflt)"

fun py_type_name :: "pyval \<Rightarrow> string" where
  "py_type_name PNone = ''NoneType''"
| "py_type_name (PBool b) = ''bool''"
| "py_type_name (PInt i) = ''int''"
| "py_type_name (PFloat x) = ''float''"
| "py_type_name (PStr s) = ''str''"
| "py_type_name (PList xs) = ''list''"
| "py_type_name (PDict kvs) = ''dict''"
| "py_type_name (PObj cls truth attrs rendering items) = cls"

fun py_len :: "pyval \<Rightarrow> py_fault + nat" where
  "py_len (PStr s) = Inr (length s)"
| "py_len (PList xs) = Inr (length xs)"
| "py_len (PDict kvs) = Inr (length kvs)"
| "py_len v = Inl (NoLen v)"

text \<open>Iterating a \<open>str\<close> yields its characters, iterating a \<open>dict\<close> its keys.\<close>

fun py_iter :: "pyval \<Rightarrow> py_fault + pyval list" where
  "py_iter (PStr s) = Inr (map (\<lambda>c. PStr [c]) s)"
| "py_iter (PList xs) = Inr xs"
| "py_iter (PDict kvs) = Inr (map (\<lambda>kv. PStr (fst kv)) kvs)"
| "py_iter (PObj cls truth attrs rendering (Some items)) = Inr items"
| "py_iter v = Inl (NotIterable v)"

text \<open>\<open>k in v\<close> for a \<open>str\<close> key: a key of a dict, an element of a list, a substring of a str.\<close>

fun py_in :: "string \<Rightarrow> pyval \<Rightarrow> py_fault + bool" where
  "py_in k (PDict kvs) = Inr (k \<in> set (map fst kvs))"
| "py_in k (PList xs) = Inr (PStr k \<in> set xs)"
| "py_in k (PStr s) = Inr (sublist k s)"
| "py_in k v = Inl (NotContainer v)"

text \<open>\<open>v[k]\<close> for a \<open>str\<close> key \<open>k\<close>.\<close>

fun py_subscript :: "pyval \<Rightarrow> string \<Rightarrow> py_fault + pyval" where
  "py_subscript (PDict kvs) k =
     (case map_of kvs k of Some v \<Rightarrow> Inr v | None \<Rightarrow> Inl (KeyError k))"
| "py_subscript v k = Inl (BadSubscript v)"

text \<open>\<open>d.get(k, default)\<close> on a dictionary, and \<open>v.get(k, default)\<close> on any value.\<close>

definition dict_get :: "pydict \<Rightarrow> string \<Rightarrow> pyval \<Rightarrow> pyval" where
  "dict_get d k dflt = (case map_of d k of Some v \<Rightarrow> v | None \<Rightarrow> dflt)"

fun py_get :: "pyval \<Rightarrow> string \<Rightarrow> pyval \<Rightarrow> py_fault + pyval" where
  "py_get (PDict kvs) k dflt = Inr (dict_get kvs k dflt)"
| "py_get v k dflt = Inl (NoAttribute v ''get'')"

text \<open>The apostrophe that the f-strings put around an echoed value.\<close>

definition apos :: string where
  "apos = [CHR 0x27]"

section \<open>The transport: the pywa client\<close>

text \<open>
  The objects of \<open>pywa.types\<close> that the handlers build. Their fields hold whatever the
  handler passes: a row's title of type \<open>Any\<close> is stored as it is.
\<close>

datatype Button = Button (button_title: string) (button_callback_data: string)

datatype SectionRow =
  SectionRow (row_title: pyval) (row_callback_data: pyval) (row_description: pyval)

datatype Section = Section (section_title: pyval) (section_rows: "SectionRow list")

datatype SectionList = SectionList (list_button_title: string) (list_sections: "Section list")

datatype buttons_arg = Buttons "Button list" | ListButtons SectionList

text \<open>
  \<open>Contact(name=Contact.Name(formatted_name=...), phones=[Contact.Phone(phone=...)])\<close>.
\<close>

datatype Contact = Contact (formatted_name: string) (phones: "string list")

text \<open>
  One constructor for each method of the client that a handler calls, with the keyword
  arguments the handlers pass. \<open>send_message\<close> is called from three places; \<open>buttons\<close>
  and \<open>preview_url\<close> are \<open>None\<close> where the call does not pass the keyword.
\<close>

datatype request =
    Send_message string string "buttons_arg option" "string option" "string option"
      "bool option" "string option"
  | Send_image string string "string option" "string option" "string option"
  | Send_video string string "string option" "string option" "string option"
  | Send_document string string "string option" "string option" "string option"
      "string option"
  | Send_audio string string "string option"
  | Send_sticker string string "string option"
  | Send_location string real real "string option" "string option" "string option"
  | Request_location string string "string option"
  | Send_contact string Contact "string option"
  | Send_reaction string string string "string option"
  | Remove_reaction string string "string option"
  | Mark_message_as_read string "string option"
  | Indicate_typing string "string option"
  | Upload_media string "string option"
  | Send_template string string string "pydict list" "string option"
  | Get_templates int "string option"

text \<open>
  A call of the client either returns a value or raises an exception (an instance of
  \<open>Exception\<close>); \<open>Raises m\<close> carries \<open>str(e)\<close> of the exception raised.
\<close>

datatype outcome = Returns pyval | Raises string

type_synonym transport = "request \<Rightarrow> outcome"

text \<open>What a handler does besides returning: calls of the client and log records.\<close>

datatype level = INFO | ERROR

datatype event = Call request | Log level string

fun calls :: "event list \<Rightarrow> request list" where
  "calls [] = []"
| "calls (Call r # es) = r # calls es"
| "calls (Log l m # es) = calls es"

section \<open>The result envelope\<close>

definition failure :: "string \<Rightarrow> pydict" where
  "failure msg = [(''success'', PBool False), (''error'', PStr msg)]"

text \<open>\<open>getattr(result, 'id', str(result)) if result else None\<close>\<close>

definition message_id_of :: "python \<Rightarrow> pyval \<Rightarrow> pyval" where
  "message_id_of P result =
     (if py_bool result then py_getattr result ''id'' (PStr (py_str P result)) else PNone)"

text \<open>\<open>str(result) if result else None\<close>\<close>

definition result_data_of :: "python \<Rightarrow> pyval \<Rightarrow> pyval" where
  "result_data_of P result = (if py_bool result then PStr (py_str P result) else PNone)"

section \<open>tools/messaging.py\<close>

text \<open>
  Every handler is one \<open>try\<close> block: the call of the client, a log record, the
  dictionary returned; the \<open>except Exception\<close> clause logs and returns the failure
  dictionary built from \<open>str(e)\<close>.
\<close>

definition send_message ::
  "python \<Rightarrow> transport \<Rightarrow> string \<Rightarrow> string \<Rightarrow> string option \<Rightarrow> string option \<Rightarrow> bool \<Rightarrow> string option \<Rightarrow> event list \<times> pydict" where
  "send_message P wa_client to text header footer preview_url reply_to_message_id =
     (let req = Send_message to text None header footer (Some preview_url) reply_to_message_id
      in (case wa_client req of
            Returns result \<Rightarrow>
              ([Call req, Log INFO (''Message sent to '' @ to)],
               [(''success'', PBool True), (''message_id'', message_id_of P result), (''to'', PStr to)])
          | Raises e \<Rightarrow>
              ([Call req, Log ERROR (''Failed to send message: '' @ e)], failure e)))"

definition send_image ::
  "python \<Rightarrow> transport \<Rightarrow> string \<Rightarrow> string \<Rightarrow> string option \<Rightarrow> string option \<Rightarrow> string option \<Rightarrow> event list \<times> pydict" where
  "send_image P wa_client to img caption footer reply_to_message_id =
     (let req = Send_image to img caption footer reply_to_message_id
      in (case wa_client req of
            Returns result \<Rightarrow>
              ([Call req, Log INFO (''Image sent to '' @ to)],
               [(''success'', PBool True), (''message_id'', message_id_of P result)])
          | Raises e \<Rightarrow>
              ([Call req, Log ERROR (''Failed to send image: '' @ e)], failure e)))"

definition send_video ::
  "python \<Rightarrow> transport \<Rightarrow> string \<Rightarrow> string \<Rightarrow> string option \<Rightarrow> string option \<Rightarrow> string option \<Rightarrow> event list \<times> pydict" where
  "send_video P wa_client to video caption footer reply_to_message_id =
     (let req = Send_video to video caption footer reply_to_message_id
      in (case wa_client req of
            Returns result \<Rightarrow>
              ([Call req, Log INFO (''Video sent to '' @ to)],
               [(''success'', PBool True), (''message_id'', message_id_of P result)])
          | Raises e \<Rightarrow>
              ([Call req, Log ERROR (''Failed to send video: '' @ e)], failure e)))"

definition send_document ::
  "python \<Rightarrow> transport \<Rightarrow> string \<Rightarrow> string \<Rightarrow> string option \<Rightarrow> string option \<Rightarrow> string option \<Rightarrow> string option \<Rightarrow> event list \<times> pydict" where
  "send_document P wa_client to document filename caption footer reply_to_message_id =
     (let req = Send_document to document filename caption footer reply_to_message_id
      in (case wa_client req of
            Returns result \<Rightarrow>
              ([Call req, Log INFO (''Document sent to '' @ to)],
               [(''success'', PBool True), (''message_id'', message_id_of P result)])
          | Raises e \<Rightarrow>
              ([Call req, Log ERROR (''Failed to send document: '' @ e)], failure e)))"

definition send_audio ::
  "python \<Rightarrow> transport \<Rightarrow> string \<Rightarrow> string \<Rightarrow> string option \<Rightarrow> event list \<times> pydict" where
  "send_audio P wa_client to audio reply_to_message_id =
     (let req = Send_audio to audio reply_to_message_id
      in (case wa_client req of
            Returns result \<Rightarrow>
              ([Call req, Log INFO (''Audio sent to '' @ to)],
               [(''success'', PBool True), (''message_id'', message_id_of P result)])
          | Raises e \<Rightarrow>
              ([Call req, Log ERROR (''Failed to send audio: '' @ e)], failure e)))"

definition send_sticker ::
  "python \<Rightarrow> transport \<Rightarrow> string \<Rightarrow> string \<Rightarrow> string option \<Rightarrow> event list \<times> pydict" where
  "send_sticker P wa_client to sticker reply_to_message_id =
     (let req = Send_sticker to sticker reply_to_message_id
      in (case wa_client req of
            Returns result \<Rightarrow>
              ([Call req, Log INFO (''Sticker sent to '' @ to)],
               [(''success'', PBool True), (''message_id'', message_id_of P result)])
          | Raises e \<Rightarrow>
              ([Call req, Log ERROR (''Failed to send sticker: '' @ e)], failure e)))"

definition send_location ::
  "python \<Rightarrow> transport \<Rightarrow> string \<Rightarrow> real \<Rightarrow> real \<Rightarrow> string option \<Rightarrow> string option \<Rightarrow> string option \<Rightarrow> event list \<times> pydict" where
  "send_location P wa_client to latitude longitude name address reply_to_message_id =
     (let req = Send_location to latitude longitude name address reply_to_message_id
      in (case wa_client req of
            Returns result \<Rightarrow>
              ([Call req, Log INFO (''Location sent to '' @ to)],
               [(''success'', PBool True), (''message_id'', message_id_of P result)])
          | Raises e \<Rightarrow>
              ([Call req, Log ERROR (''Failed to send location: '' @ e)], failure e)))"

definition request_location ::
  "python \<Rightarrow> transport \<Rightarrow> string \<Rightarrow> string \<Rightarrow> string option \<Rightarrow> event list \<times> pydict" where
  "request_location P wa_client to text reply_to_message_id =
     (let req = Request_location to text reply_to_message_id
      in (case wa_client req of
            Returns result \<Rightarrow>
              ([Call req, Log INFO (''Location request sent to '' @ to)],
               [(''success'', PBool True), (''message_id'', message_id_of P result)])
          | Raises e \<Rightarrow>
              ([Call req, Log ERROR (''Failed to request location: '' @ e)], failure e)))"

definition send_contact ::
  "python \<Rightarrow> transport \<Rightarrow> string \<Rightarrow> string \<Rightarrow> string \<Rightarrow> string option \<Rightarrow> event list \<times> pydict" where
  "send_contact P wa_client to contact_name contact_phone reply_to_message_id =
     (let req = Send_contact to (Contact contact_name [contact_phone]) reply_to_message_id
      in (case wa_client req of
            Returns result \<Rightarrow>
              ([Call req, Log INFO (''Contact sent to '' @ to)],
               [(''success'', PBool True), (''message_id'', message_id_of P result)])
          | Raises e \<Rightarrow>
              ([Call req, Log ERROR (''Failed to send contact: '' @ e)], failure e)))"

definition send_reaction ::
  "python \<Rightarrow> transport \<Rightarrow> string \<Rightarrow> string \<Rightarrow> string \<Rightarrow> string option \<Rightarrow> event list \<times> pydict" where
  "send_reaction P wa_client to emoji message_id sender =
     (let req = Send_reaction to emoji message_id sender
      in (case wa_client req of
            Returns result \<Rightarrow>
              ([Call req, Log INFO (''Reaction sent to message '' @ message_id)],
               [(''success'', PBool True), (''result'', result_data_of P result)])
          | Raises e \<Rightarrow>
              ([Call req, Log ERROR (''Failed to send reaction: '' @ e)], failure e)))"

definition remove_reaction ::
  "python \<Rightarrow> transport \<Rightarrow> string \<Rightarrow> string \<Rightarrow> string option \<Rightarrow> event list \<times> pydict" where
  "remove_reaction P wa_client to message_id sender =
     (let req = Remove_reaction to message_id sender
      in (case wa_client req of
            Returns result \<Rightarrow>
              ([Call req, Log INFO (''Reaction removed from message '' @ message_id)],
               [(''success'', PBool True), (''result'', result_data_of P result)])
          | Raises e \<Rightarrow>
              ([Call req, Log ERROR (''Failed to remove reaction: '' @ e)], failure e)))"

definition mark_message_as_read ::
  "python \<Rightarrow> transport \<Rightarrow> string \<Rightarrow> string option \<Rightarrow> event list \<times> pydict" where
  "mark_message_as_read P wa_client message_id sender =
     (let req = Mark_message_as_read message_id sender
      in (case wa_client req of
            Returns result \<Rightarrow>
              ([Call req, Log INFO (''Message '' @ message_id @ '' marked as read'')],
               [(''success'', PBool True), (''result'', result_data_of P result)])
          | Raises e \<Rightarrow>
              ([Call req, Log ERROR (''Failed to mark message as read: '' @ e)], failure e)))"

text \<open>\<open>success_status = getattr(result, 'success', bool(result))\<close>\<close>

definition indicate_typing ::
  "python \<Rightarrow> transport \<Rightarrow> string \<Rightarrow> string option \<Rightarrow> event list \<times> pydict" where
  "indicate_typing P wa_client message_id sender =
     (let req = Indicate_typing message_id sender
      in (case wa_client req of
            Returns result \<Rightarrow>
              ([Call req, Log INFO (''Typing indicator shown for message '' @ message_id)],
               [(''success'', PBool True),
                (''typing_indicated'', py_getattr result ''success'' (PBool (py_bool result))),
                (''message_id'', PStr message_id)])
          | Raises e \<Rightarrow>
              ([Call req, Log ERROR (''Failed to indicate typing: '' @ e)], failure e)))"

definition upload_media ::
  "python \<Rightarrow> transport \<Rightarrow> string \<Rightarrow> string option \<Rightarrow> event list \<times> pydict" where
  "upload_media P wa_client media_path mime_type =
     (let req = Upload_media media_path mime_type
      in (case wa_client req of
            Returns result \<Rightarrow>
              ([Call req, Log INFO (''Media uploaded successfully'')],
               [(''success'', PBool True),
                (''media_id'', PStr (py_str P result)),
                (''media_type'', PStr (py_type_name result))])
          | Raises e \<Rightarrow>
              ([Call req, Log ERROR (''Failed to upload media: '' @ e)], failure e)))"

section \<open>tools/templates.py\<close>

text \<open>\<open>params or []\<close>\<close>

definition params_or_empty :: "pydict list option \<Rightarrow> pydict list" where
  "params_or_empty params = (case params of None \<Rightarrow> [] | Some ps \<Rightarrow> ps)"

definition send_template ::
  "python \<Rightarrow> transport \<Rightarrow> string \<Rightarrow> string \<Rightarrow> string \<Rightarrow> pydict list option \<Rightarrow> string option \<Rightarrow> event list \<times> pydict" where
  "send_template P wa_client to name language params reply_to_message_id =
     (let req = Send_template to name language (params_or_empty params) reply_to_message_id
      in (case wa_client req of
            Returns result \<Rightarrow>
              ([Call req, Log INFO (''Template '' @ apos @ name @ apos @ '' sent to '' @ to)],
               [(''success'', PBool True), (''message_id'', message_id_of P result), (''template'', PStr name),
                (''to'', PStr to)])
          | Raises e \<Rightarrow>
              ([Call req, Log ERROR (''Failed to send template: '' @ e)], failure e)))"

definition template_data :: "pyval \<Rightarrow> pyval" where
  "template_data template =
     PDict [(''id'', py_getattr template ''id'' (PStr [])),
            (''name'', py_getattr template ''name'' (PStr [])),
            (''language'', py_getattr template ''language'' (PStr [])),
            (''status'', py_getattr template ''status'' (PStr [])),
            (''category'', py_getattr template ''category'' (PStr []))]"

definition get_templates ::
  "python \<Rightarrow> transport \<Rightarrow> int \<Rightarrow> string option \<Rightarrow> event list \<times> pydict" where
  "get_templates P wa_client limit name =
     (let req = Get_templates limit name
      in (case wa_client req of
            Returns templates \<Rightarrow>
              (case py_iter templates of
                 Inr items \<Rightarrow>
                   let template_list = map template_data items
                   in ([Call req,
                        Log INFO (''Retrieved ''
                                  @ py_str P (PInt (int (length template_list)))
                                  @ '' templates'')],
                       [(''success'', PBool True),
                        (''templates'', PList template_list),
                        (''count'', PInt (int (length template_list)))])
               | Inl e \<Rightarrow>
                   ([Call req, Log ERROR (''Failed to get templates: '' @ str_fault P e)],
                    failure (str_fault P e)))
          | Raises e \<Rightarrow>
              ([Call req, Log ERROR (''Failed to get templates: '' @ e)], failure e)))"

section \<open>tools/interactive.py: send_message_with_buttons\<close>

text \<open>\<open>header and len(header) > 60\<close> for an \<open>Optional[str]\<close>.\<close>

definition too_long :: "string option \<Rightarrow> nat \<Rightarrow> bool" where
  "too_long field limit =
     (case field of None \<Rightarrow> False | Some s \<Rightarrow> s \<noteq> [] \<and> length s > limit)"

text \<open>
  The loop over \<open>buttons\<close>: \<open>Inl\<close> is the dictionary returned from inside the loop,
  \<open>Inr\<close> the \<open>button_objects\<close> when the loop ends.
\<close>

fun button_loop :: "(string \<rightharpoonup> string) list \<Rightarrow> Button list \<Rightarrow> pydict + Button list" where
  "button_loop [] button_objects = Inr button_objects"
| "button_loop (btn # rest) button_objects =
     (case (btn ''id'', btn ''title'') of
        (Some btn_id, Some btn_title) \<Rightarrow>
          if length btn_title > 20 then
            Inl (failure (''Button title '' @ apos @ btn_title @ apos
                          @ '' exceeds 20 characters''))
          else if length btn_id > 256 then
            Inl (failure (''Button ID '' @ apos @ btn_id @ apos
                          @ '' exceeds 256 characters''))
          else button_loop rest (button_objects @ [Button btn_title btn_id])
      | _ \<Rightarrow> Inl (failure ''Each button must have 'id' and 'title' keys''))"

definition send_message_with_buttons ::
  "python \<Rightarrow> transport \<Rightarrow> string \<Rightarrow> string \<Rightarrow> (string \<rightharpoonup> string) list \<Rightarrow> string option \<Rightarrow>
   string option \<Rightarrow> string option \<Rightarrow> event list \<times> pydict" where
  "send_message_with_buttons P wa_client to text buttons header footer reply_to_message_id =
     (if length buttons > 3 then ([], failure ''Maximum 3 buttons allowed'')
      else if too_long header 60 then ([], failure ''Header text must be max 60 characters'')
      else if too_long footer 60 then ([], failure ''Footer text must be max 60 characters'')
      else
        case button_loop buttons [] of
          Inl returned \<Rightarrow> ([], returned)
        | Inr button_objects \<Rightarrow>
            let req = Send_message to text (Some (Buttons button_objects)) header footer None
                        reply_to_message_id
            in (case wa_client req of
                  Returns result \<Rightarrow>
                    ([Call req, Log INFO (''Message with buttons sent to '' @ to)],
                     [(''success'', PBool True), (''message_id'', message_id_of P result)])
                | Raises e \<Rightarrow>
                    ([Call req, Log ERROR (''Failed to send message with buttons: '' @ e)],
                     failure e)))"

section \<open>tools/interactive.py: send_message_with_list\<close>

text \<open>
  Inside the \<open>try\<close> block a step either goes on with a value, returns a dictionary from
  the handler, or raises an exception that the \<open>except Exception\<close> clause will catch.
\<close>

datatype 'a flow = Continue 'a | Return pydict | Raise py_fault

definition attempt :: "py_fault + 'a \<Rightarrow> ('a \<Rightarrow> 'b flow) \<Rightarrow> 'b flow" where
  "attempt r k = (case r of Inl e \<Rightarrow> Raise e | Inr x \<Rightarrow> k x)"

text \<open>\<open>sum(len(section.get("rows", [])) for section in sections)\<close>\<close>

fun total_row_count :: "pydict list \<Rightarrow> py_fault + nat" where
  "total_row_count [] = Inr 0"
| "total_row_count (section # rest) =
     (case py_len (dict_get section ''rows'' (PList [])) of
        Inl e \<Rightarrow> Inl e
      | Inr n \<Rightarrow> (case total_row_count rest of Inl e \<Rightarrow> Inl e | Inr m \<Rightarrow> Inr (n + m)))"

text \<open>The body of the loop over the rows of one section, up to \<open>rows.append\<close>.\<close>

definition build_row :: "python \<Rightarrow> pyval \<Rightarrow> SectionRow flow" where
  "build_row P row_data =
     attempt (py_in ''id'' row_data) (\<lambda>has_id.
     if \<not> has_id then Return (failure ''Each row must have 'id' and 'title' keys'') else
     attempt (py_in ''title'' row_data) (\<lambda>has_title.
     if \<not> has_title then Return (failure ''Each row must have 'id' and 'title' keys'') else
     attempt (py_subscript row_data ''id'') (\<lambda>row_id.
     attempt (py_len row_id) (\<lambda>id_len.
     if id_len > 200 then
       Return (failure (''Row ID '' @ apos @ py_str P row_id @ apos
                        @ '' exceeds 200 characters'')) else
     attempt (py_subscript row_data ''title'') (\<lambda>row_title.
     attempt (py_len row_title) (\<lambda>title_len.
     if title_len > 24 then
       Return (failure (''Row title '' @ apos @ py_str P row_title @ apos
                        @ '' exceeds 24 characters'')) else
     attempt (py_get row_data ''description'' (PStr [])) (\<lambda>description.
     attempt (py_len description) (\<lambda>description_len.
     if description_len > 72 then
       Return (failure (''Row description '' @ apos @ py_str P description @ apos
                        @ '' exceeds 72 characters'')) else
     Continue (SectionRow row_title row_id
                 (if py_bool description then description else PNone))))))))))"

fun row_loop :: "python \<Rightarrow> pyval list \<Rightarrow> SectionRow list \<Rightarrow> SectionRow list flow" where
  "row_loop P [] rows = Continue rows"
| "row_loop P (row_data # rest) rows =
     (case build_row P row_data of
        Continue row \<Rightarrow> row_loop P rest (rows @ [row])
      | Return d \<Rightarrow> Return d
      | Raise e \<Rightarrow> Raise e)"

text \<open>
  The body of the loop over the sections: \<open>Continue (Some s)\<close> when the section is
  appended to \<open>section_objects\<close>, \<open>Continue None\<close> when \<open>if rows:\<close> skips it.
\<close>

definition build_section :: "python \<Rightarrow> pydict \<Rightarrow> Section option flow" where
  "build_section P section_data =
     (case map_of section_data ''rows'' of
        None \<Rightarrow> Return (failure ''Each section must have a 'rows' array'')
      | Some raw_rows \<Rightarrow>
          let section_title = dict_get section_data ''title'' (PStr []) in
          attempt (py_len section_title) (\<lambda>title_len.
          if title_len > 24 then
            Return (failure (''Section title '' @ apos @ py_str P section_title @ apos
                             @ '' exceeds 24 characters'')) else
          attempt (py_iter raw_rows) (\<lambda>row_datas.
          (case row_loop P row_datas [] of
             Continue rows \<Rightarrow>
               Continue (if rows \<noteq> [] then Some (Section section_title rows) else None)
           | Return d \<Rightarrow> Return d
           | Raise e \<Rightarrow> Raise e))))"

fun section_loop :: "python \<Rightarrow> pydict list \<Rightarrow> Section list \<Rightarrow> Section list flow" where
  "section_loop P [] section_objects = Continue section_objects"
| "section_loop P (section_data # rest) section_objects =
     (case build_section P section_data of
        Continue (Some s) \<Rightarrow> section_loop P rest (section_objects @ [s])
      | Continue None \<Rightarrow> section_loop P rest section_objects
      | Return d \<Rightarrow> Return d
      | Raise e \<Rightarrow> Raise e)"

definition send_message_with_list ::
  "python \<Rightarrow> transport \<Rightarrow> string \<Rightarrow> string \<Rightarrow> string \<Rightarrow> pydict list \<Rightarrow> string option \<Rightarrow>
   string option \<Rightarrow> string option \<Rightarrow> event list \<times> pydict" where
  "send_message_with_list P wa_client to text button_text sections header footer
     reply_to_message_id =
     (if length sections > 10 then ([], failure ''Maximum 10 sections allowed'')
      else if length button_text > 20 then
        ([], failure ''Button text must be max 20 characters'')
      else if too_long header 60 then ([], failure ''Header text must be max 60 characters'')
      else if too_long footer 60 then ([], failure ''Footer text must be max 60 characters'')
      else
        (case total_row_count sections of
           Inl e \<Rightarrow>
             ([Log ERROR (''Failed to send message with list: '' @ str_fault P e)],
              failure (str_fault P e))
         | Inr row_count \<Rightarrow>
             if row_count > 10 then ([], failure ''Maximum 10 rows total across all sections'')
             else
               (case section_loop P sections [] of
                  Return d \<Rightarrow> ([], d)
                | Raise e \<Rightarrow>
                    ([Log ERROR (''Failed to send message with list: '' @ str_fault P e)],
                     failure (str_fault P e))
                | Continue section_objects \<Rightarrow>
                    let req = Send_message to text
                                (Some (ListButtons (SectionList button_text section_objects)))
                                header footer None reply_to_message_id
                    in (case wa_client req of
                          Returns result \<Rightarrow>
                            ([Call req, Log INFO (''Message with list sent to '' @ to)],
                             [(''success'', PBool True),
                              (''message_id'', message_id_of P result)])
                        | Raises e \<Rightarrow>
                            ([Call req,
                              Log ERROR (''Failed to send message with list: '' @ e)],
                             failure e)))))"

section \<open>The tool surface\<close>

text \<open>
  A call of one of the eighteen registered tools with its arguments, as the host delivers
  it, and the handler it runs.
\<close>

datatype tool_call =
    Tool_send_message string string "string option" "string option" bool "string option"
  | Tool_send_image string string "string option" "string option" "string option"
  | Tool_send_video string string "string option" "string option" "string option"
  | Tool_send_document string string "string option" "string option" "string option"
      "string option"
  | Tool_send_audio string string "string option"
  | Tool_send_sticker string string "string option"
  | Tool_send_location string real real "string option" "string option" "string option"
  | Tool_request_location string string "string option"
  | Tool_send_contact string string string "string option"
  | Tool_send_reaction string string string "string option"
  | Tool_remove_reaction string string "string option"
  | Tool_mark_message_as_read string "string option"
  | Tool_indicate_typing string "string option"
  | Tool_upload_media string "string option"
  | Tool_send_message_with_buttons string string "(string \<rightharpoonup> string) list" "string option"
      "string option" "string option"
  | Tool_send_message_with_list string string string "pydict list" "string option"
      "string option" "string option"
  | Tool_send_template string string string "pydict list option" "string option"
  | Tool_get_templates int "string option"

fun tool_name :: "tool_call \<Rightarrow> string" where
  "tool_name (Tool_send_message to text header footer preview_url reply) = ''send_message''"
| "tool_name (Tool_send_image to img caption footer reply) = ''send_image''"
| "tool_name (Tool_send_video to video caption footer reply) = ''send_video''"
| "tool_name (Tool_send_document to document filename caption footer reply) = ''send_document''"
| "tool_name (Tool_send_audio to audio reply) = ''send_audio''"
| "tool_name (Tool_send_sticker to sticker reply) = ''send_sticker''"
| "tool_name (Tool_send_location to latitude longitude name address reply) = ''send_location''"
| "tool_name (Tool_request_location to text reply) = ''request_location''"
| "tool_name (Tool_send_contact to contact_name contact_phone reply) = ''send_contact''"
| "tool_name (Tool_send_reaction to emoji message_id sender) = ''send_reaction''"
| "tool_name (Tool_remove_reaction to message_id sender) = ''remove_reaction''"
| "tool_name (Tool_mark_message_as_read message_id sender) = ''mark_message_as_read''"
| "tool_name (Tool_indicate_typing message_id sender) = ''indicate_typing''"
| "tool_name (Tool_upload_media media_path mime_type) = ''upload_media''"
| "tool_name (Tool_send_message_with_buttons to text buttons header footer reply) =
     ''send_message_with_buttons''"
| "tool_name (Tool_send_message_with_list to text button_text sections header footer reply) =
     ''send_message_with_list''"
| "tool_name (Tool_send_template to name language params reply) = ''send_template''"
| "tool_name (Tool_get_templates limit name) = ''get_templates''"

fun invoke :: "python \<Rightarrow> transport \<Rightarrow> tool_call \<Rightarrow> event list \<times> pydict" where
  "invoke P wa_client (Tool_send_message to text header footer preview_url reply) =
     send_message P wa_client to text header footer preview_url reply"
| "invoke P wa_client (Tool_send_image to img caption footer reply) =
     send_image P wa_client to img caption footer reply"
| "invoke P wa_client (Tool_send_video to video caption footer reply) =
     send_video P wa_client to video caption footer reply"
| "invoke P wa_client (Tool_send_document to document filename caption footer reply) =
     send_document P wa_client to document filename caption footer reply"
| "invoke P wa_client (Tool_send_audio to audio reply) =
     send_audio P wa_client to audio reply"
| "invoke P wa_client (Tool_send_sticker to sticker reply) =
     send_sticker P wa_client to sticker reply"
| "invoke P wa_client (Tool_send_location to latitude longitude name address reply) =
     send_location P wa_client to latitude longitude name address reply"
| "invoke P wa_client (Tool_request_location to text reply) =
     request_location P wa_client to text reply"
| "invoke P wa_client (Tool_send_contact to contact_name contact_phone reply) =
     send_contact P wa_client to contact_name contact_phone reply"
| "invoke P wa_client (Tool_send_reaction to emoji message_id sender) =
     send_reaction P wa_client to emoji message_id sender"
| "invoke P wa_client (Tool_remove_reaction to message_id sender) =
     remove_reaction P wa_client to message_id sender"
| "invoke P wa_client (Tool_mark_message_as_read message_id sender) =
     mark_message_as_read P wa_client message_id sender"
| "invoke P wa_client (Tool_indicate_typing message_id sender) =
     indicate_typing P wa_client message_id sender"
| "invoke P wa_client (Tool_upload_media media_path mime_type) =
     upload_media P wa_client media_path mime_type"
| "invoke P wa_client (Tool_send_message_with_buttons to text buttons header footer reply) =
     send_message_with_buttons P wa_client to text buttons header footer reply"
| "invoke P wa_client (Tool_send_message_with_list to text button_text sections header footer
                         reply) =
     send_message_with_list P wa_client to text button_text sections header footer reply"
| "invoke P wa_client (Tool_send_template to name language params reply) =
     send_template P wa_client to name language params reply"
| "invoke P wa_client (Tool_get_templates limit name) =
     get_templates P wa_client limit name"

section \<open>server.py: the client and the registration of the tools\<close>













section \<open>The button validation as the specification words it\<close>

text \<open>
  The checks of \<open>send_message_with_buttons\<close> in the order the specification gives them:
  more than 3 buttons; header present and longer than 60; footer present and longer than
  60; then, for each button in list order, a missing key, a title longer than 20, an id
  longer than 256. \<open>first_violation\<close> is the first check violated, if any;
  \<open>violation_message\<close> is the text the handler reports for it.
\<close>

datatype violation =
    TooManyButtons
  | HeaderTooLong
  | FooterTooLong
  | MissingKeys
  | TitleTooLong string
  | IdTooLong string

fun violation_message :: "violation \<Rightarrow> string" where
  "violation_message TooManyButtons = ''Maximum 3 buttons allowed''"
| "violation_message HeaderTooLong = ''Header text must be max 60 characters''"
| "violation_message FooterTooLong = ''Footer text must be max 60 characters''"
| "violation_message MissingKeys = ''Each button must have 'id' and 'title' keys''"
| "violation_message (TitleTooLong t) =
     ''Button title '' @ apos @ t @ apos @ '' exceeds 20 characters''"
| "violation_message (IdTooLong i) =
     ''Button ID '' @ apos @ i @ apos @ '' exceeds 256 characters''"

definition present_and_longer :: "string option \<Rightarrow> nat \<Rightarrow> bool" where
  "present_and_longer field limit = (case field of None \<Rightarrow> False | Some s \<Rightarrow> length s > limit)"

definition button_violation :: "(string \<rightharpoonup> string) \<Rightarrow> violation option" where
  "button_violation btn =
     (if btn ''id'' = None \<or> btn ''title'' = None then Some MissingKeys
      else if length (the (btn ''title'')) > 20 then Some (TitleTooLong (the (btn ''title'')))
      else if length (the (btn ''id'')) > 256 then Some (IdTooLong (the (btn ''id'')))
      else None)"

definition first_button_violation :: "(string \<rightharpoonup> string) list \<Rightarrow> violation option" where
  "first_button_violation buttons =
     (case List.find (\<lambda>btn. button_violation btn \<noteq> None) buttons of
        None \<Rightarrow> None
      | Some btn \<Rightarrow> button_violation btn)"

definition first_violation ::
  "(string \<rightharpoonup> string) list \<Rightarrow> string option \<Rightarrow> string option \<Rightarrow> violation option" where
  "first_violation buttons header footer =
     (if length buttons > 3 then Some TooManyButtons
      else if present_and_longer header 60 then Some HeaderTooLong
      else if present_and_longer footer 60 then Some FooterTooLong
      else first_button_violation buttons)"

text \<open>The normalized button of a button dictionary that has both keys.\<close>

definition to_button :: "(string \<rightharpoonup> string) \<Rightarrow> Button" where
  "to_button btn = Button (the (btn ''title'')) (the (btn ''id''))"

section \<open>Sample values\<close>

text \<open>
  An interpreter, a message object as pywa returns it, and clients that always return
  such an object or always raise, for the concrete runs below.
\<close>

definition demo_python :: python where
  "demo_python = \<lparr>str_builtin = (\<lambda>v. ''<value>''), str_fault = (\<lambda>e. ''<error>'')\<rparr>"

definition sent_message :: "string \<Rightarrow> pyval" where
  "sent_message mid = PObj ''SentMessage'' True [(''id'', PStr mid)] ''SentMessage'' None"

definition demo_client :: transport where
  "demo_client req = Returns (sent_message ''wamid.1'')"

definition raising_client :: "string \<Rightarrow> transport" where
  "raising_client m req = Raises m"

section \<open>The row count as the specification words it\<close>



section \<open>Envelopes, recipients and tools that report a message id\<close>



text \<open>
  The tail that the handlers of \<open>tools/interactive.py\<close> share once validation has passed:
  the call of the client, and the dictionary and log record for either outcome.
\<close>

definition delivered ::
  "python \<Rightarrow> transport \<Rightarrow> request \<Rightarrow> string \<Rightarrow> string \<Rightarrow> event list \<times> pydict" where
  "delivered P wa_client req info err =
     (case wa_client req of
        Returns result \<Rightarrow>
          ([Call req, Log INFO info],
           [(''success'', PBool True), (''message_id'', message_id_of P result)])
      | Raises e \<Rightarrow> ([Call req, Log ERROR (err @ e)], failure e))"


text \<open>
  The send operations are the tools with a \<open>to\<close> parameter: \<open>recipient\<close> reads it,
  \<open>with_recipient\<close> replaces it, and \<open>request_to\<close> reads the \<open>to\<close> keyword of a call of
  the client. Only the two interactive tools validate anything before the call.
\<close>

fun recipient :: "tool_call \<Rightarrow> string option" where
  "recipient (Tool_send_message to body header footer preview_url reply) = Some to"
| "recipient (Tool_send_image to img caption footer reply) = Some to"
| "recipient (Tool_send_video to video caption footer reply) = Some to"
| "recipient (Tool_send_document to document filename caption footer reply) = Some to"
| "recipient (Tool_send_audio to audio reply) = Some to"
| "recipient (Tool_send_sticker to sticker reply) = Some to"
| "recipient (Tool_send_location to latitude longitude name address reply) = Some to"
| "recipient (Tool_request_location to body reply) = Some to"
| "recipient (Tool_send_contact to contact_name contact_phone reply) = Some to"
| "recipient (Tool_send_reaction to emoji message_id sender) = Some to"
| "recipient (Tool_remove_reaction to message_id sender) = Some to"
| "recipient (Tool_send_message_with_buttons to body buttons header footer reply) = Some to"
| "recipient (Tool_send_message_with_list to body button_text sections header footer reply) =
     Some to"
| "recipient (Tool_send_template to name language params reply) = Some to"
| "recipient c = None"

fun with_recipient :: "string \<Rightarrow> tool_call \<Rightarrow> tool_call" where
  "with_recipient r (Tool_send_message to body header footer preview_url reply) =
     Tool_send_message r body header footer preview_url reply"
| "with_recipient r (Tool_send_image to img caption footer reply) =
     Tool_send_image r img caption footer reply"
| "with_recipient r (Tool_send_video to video caption footer reply) =
     Tool_send_video r video caption footer reply"
| "with_recipient r (Tool_send_document to document filename caption footer reply) =
     Tool_send_document r document filename caption footer reply"
| "with_recipient r (Tool_send_audio to audio reply) = Tool_send_audio r audio reply"
| "with_recipient r (Tool_send_sticker to sticker reply) = Tool_send_sticker r sticker reply"
| "with_recipient r (Tool_send_location to latitude longitude name address reply) =
     Tool_send_location r latitude longitude name address reply"
| "with_recipient r (Tool_request_location to body reply) = Tool_request_location r body reply"
| "with_recipient r (Tool_send_contact to contact_name contact_phone reply) =
     Tool_send_contact r contact_name contact_phone reply"
| "with_recipient r (Tool_send_reaction to emoji message_id sender) =
     Tool_send_reaction r emoji message_id sender"
| "with_recipient r (Tool_remove_reaction to message_id sender) =
     Tool_remove_reaction r message_id sender"
| "with_recipient r (Tool_send_message_with_buttons to body buttons header footer reply) =
     Tool_send_message_with_buttons r body buttons header footer reply"
| "with_recipient r (Tool_send_message_with_list to body button_text sections header footer
                       reply) =
     Tool_send_message_with_list r body button_text sections header footer reply"
| "with_recipient r (Tool_send_template to name language params reply) =
     Tool_send_template r name language params reply"
| "with_recipient r c = c"

fun request_to :: "request \<Rightarrow> string option" where
  "request_to (Send_message to body buttons header footer preview_url reply) = Some to"
| "request_to (Send_image to img caption footer reply) = Some to"
| "request_to (Send_video to video caption footer reply) = Some to"
| "request_to (Send_document to document filename caption footer reply) = Some to"
| "request_to (Send_audio to audio reply) = Some to"
| "request_to (Send_sticker to sticker reply) = Some to"
| "request_to (Send_location to latitude longitude name address reply) = Some to"
| "request_to (Request_location to body reply) = Some to"
| "request_to (Send_contact to contact reply) = Some to"
| "request_to (Send_reaction to emoji message_id sender) = Some to"
| "request_to (Remove_reaction to message_id sender) = Some to"
| "request_to (Send_template to name language params reply) = Some to"
| "request_to req = None"

fun validates_payload :: "tool_call \<Rightarrow> bool" where
  "validates_payload (Tool_send_message_with_buttons to body buttons header footer reply) = True"
| "validates_payload (Tool_send_message_with_list to body button_text sections header footer
                        reply) = True"
| "validates_payload c = False"

section \<open>The two states the server can start in\<close>




section \<open>Sample payloads and results\<close>


definition menu_sections :: "pydict list" where
  "menu_sections =
     [[(''title'', PStr ''Empty''), (''rows'', PList [])],
      [(''title'', PStr ''Drinks''),
       (''rows'', PList [PDict [(''id'', PStr ''coke''), (''title'', PStr ''Coca Cola'')],
                        PDict [(''id'', PStr ''water''), (''title'', PStr ''Water''),
                               (''description'', PStr ''Still'')]])]]"

definition typing_result :: pyval where
  "typing_result = PObj ''SuccessResult'' False [(''success'', PBool False)]
                     ''SuccessResult(success=False)'' None"

definition typing_client :: transport where
  "typing_client req = Returns typing_result"

section \<open>Properties of send_message_with_buttons\<close>

lemma too_long_iff: "too_long field limit = present_and_longer field limit"
  by (cases field) (auto simp: too_long_def present_and_longer_def)

lemma first_button_violation_Nil: "first_button_violation [] = None"
  by (simp add: first_button_violation_def)

lemma first_button_violation_Cons:
  "first_button_violation (btn # rest) =
     (case button_violation btn of Some v \<Rightarrow> Some v | None \<Rightarrow> first_button_violation rest)"
  by (auto simp: first_button_violation_def split: option.splits)

lemma button_loop_first_violation:
  "button_loop bs acc =
     (case first_button_violation bs of
        None \<Rightarrow> Inr (acc @ map to_button bs)
      | Some v \<Rightarrow> Inl (failure (violation_message v)))"
proof (induction bs arbitrary: acc)
  case Nil
  show ?case by (simp add: first_button_violation_Nil)
next
  case (Cons btn rest)
  show ?case
  proof (cases "button_violation btn")
    case None
    then obtain i t where "btn ''id'' = Some i" "btn ''title'' = Some t"
      "\<not> length t > 20" "\<not> length i > 256"
      by (auto simp: button_violation_def split: if_splits)
    with None Cons.IH [of "acc @ [Button t i]"] show ?thesis
      by (simp add: to_button_def first_button_violation_Cons split: option.splits)
  next
    case (Some v)
    then show ?thesis
      by (auto simp: button_violation_def first_button_violation_Cons
            split: if_splits option.splits)
  qed
qed

text \<open>
  Claim C2. \<open>send_message_with_buttons\<close> validates in the fixed order of
  \<open>first_violation\<close> and stops at the first violated check: whenever some check is
  violated the handler returns the failure dictionary with the message of the first one
  and makes no call of the client (its event list is empty); when no check is violated it
  calls the client once. In particular, with 4 or more buttons the result is
  \<open>{success: False, error: "Maximum 3 buttons allowed"}\<close> whatever the buttons contain.
\<close>

theorem buttons_validation_order:
  "(\<forall>v. first_violation buttons header footer = Some v \<longrightarrow>
        send_message_with_buttons P wa_client to text buttons header footer reply_to
          = ([], failure (violation_message v)))
   \<and> (first_violation buttons header footer = None \<longrightarrow>
        length (calls (fst (send_message_with_buttons P wa_client to text buttons header footer
                              reply_to))) = 1)
   \<and> (4 \<le> length buttons \<longrightarrow>
        send_message_with_buttons P wa_client to text buttons header footer reply_to
          = ([], failure ''Maximum 3 buttons allowed''))"
  by (auto simp: send_message_with_buttons_def first_violation_def too_long_iff
        button_loop_first_violation Let_def split: option.splits outcome.splits)

theorem buttons_validation_order_witness:
  "first_violation
     [[''id'' \<mapsto> ''a'', ''title'' \<mapsto> ''A''], Map.empty, [''id'' \<mapsto> ''c''], [''title'' \<mapsto> ''D'']]
     None None = Some TooManyButtons
   \<and> send_message_with_buttons demo_python demo_client ''+1234567890'' ''Choose''
        [[''id'' \<mapsto> ''a'', ''title'' \<mapsto> ''A''], Map.empty, [''id'' \<mapsto> ''c''], [''title'' \<mapsto> ''D'']]
        None None None
       = ([], failure ''Maximum 3 buttons allowed'')
   \<and> first_violation
        [[''id'' \<mapsto> ''a'', ''title'' \<mapsto> ''A''], [''id'' \<mapsto> ''b'', ''title'' \<mapsto> replicate 21 CHR ''x'']]
        None (Some (replicate 61 CHR ''f'')) = Some FooterTooLong
   \<and> send_message_with_buttons demo_python demo_client ''+1234567890'' ''Choose''
        [[''id'' \<mapsto> ''a'', ''title'' \<mapsto> ''A''], [''id'' \<mapsto> ''b'', ''title'' \<mapsto> replicate 21 CHR ''x'']]
        None (Some (replicate 61 CHR ''f'')) None
       = ([], failure ''Footer text must be max 60 characters'')"
proof -
  let ?four = "[[''id'' \<mapsto> ''a'', ''title'' \<mapsto> ''A''], Map.empty, [''id'' \<mapsto> ''c''],
                [''title'' \<mapsto> ''D'']] :: (string \<rightharpoonup> string) list"
  let ?two = "[[''id'' \<mapsto> ''a'', ''title'' \<mapsto> ''A''],
               [''id'' \<mapsto> ''b'', ''title'' \<mapsto> replicate 21 CHR ''x'']] :: (string \<rightharpoonup> string) list"
  have v1: "first_violation ?four None None = Some TooManyButtons"
    by (simp add: first_violation_def)
  have v2: "first_violation ?two None (Some (replicate 61 CHR ''f'')) = Some FooterTooLong"
    by (simp add: first_violation_def present_and_longer_def)
  from v1 v2
    buttons_validation_order [of "?four" None None demo_python demo_client "''+1234567890''"
      "''Choose''" None]
    buttons_validation_order [of "?two" None "Some (replicate 61 CHR ''f'')" demo_python
      demo_client "''+1234567890''" "''Choose''" None]
  show ?thesis by simp
qed

lemma first_button_violation_valid:
  assumes "\<forall>btn \<in> set bs. \<exists>i t. btn ''id'' = Some i \<and> btn ''title'' = Some t
                               \<and> length t \<le> 20 \<and> length i \<le> 256"
  shows "first_button_violation bs = None"
  using assms
  by (induction bs) (auto simp: first_button_violation_Nil first_button_violation_Cons
                        button_violation_def)

lemma too_long_bounded:
  assumes "\<forall>s. field = Some s \<longrightarrow> length s \<le> limit"
  shows "\<not> too_long field limit"
  using assms by (cases field) (auto simp: too_long_def)

text \<open>
  Claim C6. For at most 3 buttons that all have both keys, a title of at most 20 and an
  id of at most 256 characters, and a header and footer of at most 60 characters when
  present, the handler calls the client exactly once, with a button list of the same
  length and order whose \<open>callback_data\<close> and \<open>title\<close> are the \<open>id\<close> and \<open>title\<close> of the
  input buttons; when that call returns, the handler returns the success dictionary with
  the message id.
\<close>

theorem buttons_valid_dispatch:
  assumes "length buttons \<le> 3"
    and "\<forall>btn \<in> set buttons. \<exists>i t. btn ''id'' = Some i \<and> btn ''title'' = Some t
                                   \<and> length t \<le> 20 \<and> length i \<le> 256"
    and "\<forall>h. header = Some h \<longrightarrow> length h \<le> 60"
    and "\<forall>f. footer = Some f \<longrightarrow> length f \<le> 60"
  shows "\<exists>button_objects.
           calls (fst (send_message_with_buttons P wa_client to text buttons header footer
                         reply_to))
             = [Send_message to text (Some (Buttons button_objects)) header footer None reply_to]
         \<and> length button_objects = length buttons
         \<and> (\<forall>k < length buttons.
               (buttons ! k) ''id'' = Some (button_callback_data (button_objects ! k))
             \<and> (buttons ! k) ''title'' = Some (button_title (button_objects ! k)))
         \<and> (\<forall>result.
               wa_client (Send_message to text (Some (Buttons button_objects)) header footer
                            None reply_to) = Returns result
               \<longrightarrow> snd (send_message_with_buttons P wa_client to text buttons header footer
                          reply_to)
                     = [(''success'', PBool True), (''message_id'', message_id_of P result)])"
proof -
  let ?objs = "map to_button buttons"
  let ?req = "Send_message to text (Some (Buttons ?objs)) header footer None reply_to"
  have loop: "button_loop buttons [] = Inr ?objs"
    by (simp add: button_loop_first_violation first_button_violation_valid [OF assms(2)])
  have guards: "\<not> length buttons > 3" "\<not> too_long header 60" "\<not> too_long footer 60"
    using assms(1) too_long_bounded [OF assms(3)] too_long_bounded [OF assms(4)] by auto
  have run: "send_message_with_buttons P wa_client to text buttons header footer reply_to =
        (case wa_client ?req of
           Returns result \<Rightarrow>
             ([Call ?req, Log INFO (''Message with buttons sent to '' @ to)],
              [(''success'', PBool True), (''message_id'', message_id_of P result)])
         | Raises e \<Rightarrow>
             ([Call ?req, Log ERROR (''Failed to send message with buttons: '' @ e)],
              failure e))"
    using guards by (simp add: send_message_with_buttons_def loop Let_def)
  have fields: "\<forall>k < length buttons.
               (buttons ! k) ''id'' = Some (button_callback_data (?objs ! k))
             \<and> (buttons ! k) ''title'' = Some (button_title (?objs ! k))"
  proof (intro allI impI)
    fix k assume "k < length buttons"
    then have "buttons ! k \<in> set buttons" by simp
    with assms(2) obtain i t where "(buttons ! k) ''id'' = Some i" "(buttons ! k) ''title'' = Some t"
      by blast
    with \<open>k < length buttons\<close>
    show "(buttons ! k) ''id'' = Some (button_callback_data (?objs ! k))
             \<and> (buttons ! k) ''title'' = Some (button_title (?objs ! k))"
      by (simp add: to_button_def)
  qed
  have "calls (fst (send_message_with_buttons P wa_client to text buttons header footer reply_to))
          = [?req]"
    by (simp add: run split: outcome.splits)
  moreover have "\<forall>result. wa_client ?req = Returns result \<longrightarrow>
      snd (send_message_with_buttons P wa_client to text buttons header footer reply_to)
        = [(''success'', PBool True), (''message_id'', message_id_of P result)]"
    by (simp add: run)
  ultimately show ?thesis using fields
    by (intro exI [of _ ?objs]) simp
qed

theorem buttons_valid_dispatch_witness:
  "length [[''id'' \<mapsto> ''o1'', ''title'' \<mapsto> ''Yes''], [''id'' \<mapsto> ''o2'', ''title'' \<mapsto> ''No'']] \<le> 3
   \<and> send_message_with_buttons demo_python demo_client ''+1234567890'' ''Choose''
        [[''id'' \<mapsto> ''o1'', ''title'' \<mapsto> ''Yes''], [''id'' \<mapsto> ''o2'', ''title'' \<mapsto> ''No'']]
        None None None
      = ([Call (Send_message ''+1234567890'' ''Choose''
                  (Some (Buttons [Button ''Yes'' ''o1'', Button ''No'' ''o2''])) None None None
                  None),
          Log INFO ''Message with buttons sent to +1234567890''],
         [(''success'', PBool True), (''message_id'', PStr ''wamid.1'')])"
proof -
  let ?buttons = "[[''id'' \<mapsto> ''o1'', ''title'' \<mapsto> ''Yes''],
                   [''id'' \<mapsto> ''o2'', ''title'' \<mapsto> ''No'']] :: (string \<rightharpoonup> string) list"
  have h1: "length ?buttons \<le> 3" by simp
  have h2: "\<forall>btn \<in> set ?buttons. \<exists>i t. btn ''id'' = Some i \<and> btn ''title'' = Some t
                                   \<and> length t \<le> 20 \<and> length i \<le> 256"
    by simp
  have h3: "\<forall>h. (None :: string option) = Some h \<longrightarrow> length h \<le> 60" by simp
  show ?thesis
    using h2 buttons_valid_dispatch [OF h1 h2 h3 h3, of demo_python demo_client
        "''+1234567890''" "''Choose''" None]
    by (simp add: send_message_with_buttons_def demo_client_def sent_message_def
          message_id_of_def py_getattr_def too_long_def)
qed

section \<open>Properties of send_message_with_list\<close>









lemma build_section_Some:
  assumes "build_section P section_data = Continue (Some s)"
  shows "section_rows s \<noteq> []"
  using assms unfolding build_section_def Let_def attempt_def
  by (auto split: option.splits sum.splits if_splits flow.splits)

lemma section_loop_nonempty:
  assumes "section_loop P sections acc = Continue out"
    and "\<forall>s \<in> set acc. section_rows s \<noteq> []"
  shows "\<forall>s \<in> set out. section_rows s \<noteq> []"
  using assms
proof (induction sections arbitrary: acc)
  case Nil
  then show ?case by simp
next
  case (Cons section_data rest)
  show ?case
  proof (cases "build_section P section_data")
    case (Continue r)
    show ?thesis
    proof (cases r)
      case None
      with Continue Cons.prems have "section_loop P rest acc = Continue out" by simp
      from Cons.IH [OF this Cons.prems(2)] show ?thesis .
    next
      case (Some s)
      with Continue Cons.prems have run: "section_loop P rest (acc @ [s]) = Continue out"
        by simp
      from Continue Some have "section_rows s \<noteq> []" by (simp add: build_section_Some)
      with Cons.prems(2) have "\<forall>x \<in> set (acc @ [s]). section_rows x \<noteq> []" by simp
      from Cons.IH [OF run this] show ?thesis .
    qed
  next
    case (Return d)
    with Cons.prems show ?thesis by simp
  next
    case (Raise e)
    with Cons.prems show ?thesis by simp
  qed
qed

lemma build_section_empty:
  assumes "map_of section_data ''rows'' = Some (PList [])"
    and "py_len (dict_get section_data ''title'' (PStr [])) = Inr n" and "n \<le> 24"
  shows "build_section P section_data = Continue None"
  using assms by (simp add: build_section_def attempt_def Let_def)

lemma list_call_sections:
  assumes "Call (Send_message to' text' (Some (ListButtons sl)) h f p r)
             \<in> set (fst (send_message_with_list P wa_client to text button_text sections header
                             footer reply_to))"
  shows "section_loop P sections [] = Continue (list_sections sl)"
  using assms
  by (auto simp: send_message_with_list_def Let_def failure_def
        split: if_splits sum.splits flow.splits outcome.splits)

text \<open>
  Claim C5. Every section of the \<open>SectionList\<close> that \<open>send_message_with_list\<close> hands
  to the client has at least one row. A section whose rows array is empty (and whose title
  is within 24 characters) is no error: the loop goes on with the sections collected so
  far, so the section is left out of the normalized list. The run below has one section
  without rows and one with two rows, and the client receives exactly one section.
\<close>

theorem normalized_sections_nonempty:
  "(Call (Send_message to' text' (Some (ListButtons sl)) h f p r)
       \<in> set (fst (send_message_with_list P wa_client to text button_text sections header
                       footer reply_to))
     \<longrightarrow> (\<forall>s \<in> set (list_sections sl). section_rows s \<noteq> []))
   \<and> (map_of section_data ''rows'' = Some (PList [])
        \<and> py_len (dict_get section_data ''title'' (PStr [])) = Inr n \<and> n \<le> 24
     \<longrightarrow> section_loop P (section_data # rest) acc = section_loop P rest acc)"
proof (intro conjI impI)
  assume "Call (Send_message to' text' (Some (ListButtons sl)) h f p r)
       \<in> set (fst (send_message_with_list P wa_client to text button_text sections header
                       footer reply_to))"
  from list_call_sections [OF this] show "\<forall>s \<in> set (list_sections sl). section_rows s \<noteq> []"
    by (rule section_loop_nonempty) simp
next
  assume "map_of section_data ''rows'' = Some (PList [])
        \<and> py_len (dict_get section_data ''title'' (PStr [])) = Inr n \<and> n \<le> 24"
  then show "section_loop P (section_data # rest) acc = section_loop P rest acc"
    by (simp add: build_section_empty)
qed

theorem normalized_sections_nonempty_witness:
  "send_message_with_list demo_python demo_client ''+1234567890'' ''Choose'' ''View''
     menu_sections None None None
   = ([Call (Send_message ''+1234567890'' ''Choose''
              (Some (ListButtons (SectionList ''View''
                 [Section (PStr ''Drinks'')
                    [SectionRow (PStr ''Coca Cola'') (PStr ''coke'') PNone,
                     SectionRow (PStr ''Water'') (PStr ''water'') (PStr ''Still'')]])))
              None None None None),
       Log INFO ''Message with list sent to +1234567890''],
      [(''success'', PBool True), (''message_id'', PStr ''wamid.1'')])
   \<and> section_rows (Section (PStr ''Drinks'')
                    [SectionRow (PStr ''Coca Cola'') (PStr ''coke'') PNone,
                     SectionRow (PStr ''Water'') (PStr ''water'') (PStr ''Still'')]) \<noteq> []"
proof -
  have run: "send_message_with_list demo_python demo_client ''+1234567890'' ''Choose'' ''View''
     menu_sections None None None
   = ([Call (Send_message ''+1234567890'' ''Choose''
              (Some (ListButtons (SectionList ''View''
                 [Section (PStr ''Drinks'')
                    [SectionRow (PStr ''Coca Cola'') (PStr ''coke'') PNone,
                     SectionRow (PStr ''Water'') (PStr ''water'') (PStr ''Still'')]])))
              None None None None),
       Log INFO ''Message with list sent to +1234567890''],
      [(''success'', PBool True), (''message_id'', PStr ''wamid.1'')])"
    by (simp add: send_message_with_list_def menu_sections_def too_long_def dict_get_def
          build_section_def build_row_def attempt_def demo_client_def sent_message_def
          message_id_of_def py_getattr_def)
  then have "Call (Send_message ''+1234567890'' ''Choose''
              (Some (ListButtons (SectionList ''View''
                 [Section (PStr ''Drinks'')
                    [SectionRow (PStr ''Coca Cola'') (PStr ''coke'') PNone,
                     SectionRow (PStr ''Water'') (PStr ''water'') (PStr ''Still'')]])))
              None None None None)
           \<in> set (fst (send_message_with_list demo_python demo_client ''+1234567890''
                           ''Choose'' ''View'' menu_sections None None None))"
    by simp
  from normalized_sections_nonempty [THEN conjunct1, THEN mp, OF this]
  have "\<forall>s \<in> set (list_sections (SectionList ''View''
                 [Section (PStr ''Drinks'')
                    [SectionRow (PStr ''Coca Cola'') (PStr ''coke'') PNone,
                     SectionRow (PStr ''Water'') (PStr ''water'') (PStr ''Still'')]])).
          section_rows s \<noteq> []" .
  with run show ?thesis by simp
qed

section \<open>The shape of every result\<close>

lemma build_row_Return:
  assumes "build_row P row_data = Return d"
  shows "\<exists>m. d = failure m"
  using assms unfolding build_row_def attempt_def
  by (auto split: sum.splits if_splits)

lemma row_loop_Return:
  assumes "row_loop P row_datas rows = Return d"
  shows "\<exists>m. d = failure m"
  using assms
proof (induction row_datas arbitrary: rows)
  case Nil
  then show ?case by simp
next
  case (Cons row_data rest)
  then show ?case
    by (cases "build_row P row_data") (auto dest: build_row_Return)
qed

lemma build_section_Return:
  assumes "build_section P section_data = Return d"
  shows "\<exists>m. d = failure m"
  using assms unfolding build_section_def attempt_def Let_def
  by (auto split: option.splits sum.splits if_splits flow.splits dest: row_loop_Return)

lemma section_loop_Return:
  assumes "section_loop P sections acc = Return d"
  shows "\<exists>m. d = failure m"
  using assms
proof (induction sections arbitrary: acc)
  case Nil
  then show ?case by simp
next
  case (Cons section_data rest)
  then show ?case
    by (cases "build_section P section_data")
       (auto dest: build_section_Return split: option.splits)
qed

lemma button_loop_Inl:
  assumes "button_loop buttons acc = Inl d"
  shows "\<exists>m. d = failure m"
  using assms
  by (induction buttons arbitrary: acc) (auto split: option.splits if_splits)

lemma buttons_run:
  "(\<exists>m. \<forall>to. send_message_with_buttons P wa_client to text buttons header footer reply
          = ([], failure m))
   \<or> (\<exists>objs. \<forall>to. send_message_with_buttons P wa_client to text buttons header footer reply
         = delivered P wa_client
             (Send_message to text (Some (Buttons objs)) header footer None reply)
             (''Message with buttons sent to '' @ to)
             ''Failed to send message with buttons: '')"
proof -
  consider (many) "length buttons > 3"
    | (header) "\<not> length buttons > 3" "too_long header 60"
    | (footer) "\<not> length buttons > 3" "\<not> too_long header 60" "too_long footer 60"
    | (loop) "\<not> length buttons > 3" "\<not> too_long header 60" "\<not> too_long footer 60"
    by blast
  then show ?thesis
  proof cases
    case many
    then have "\<forall>to. send_message_with_buttons P wa_client to text buttons header footer reply
                 = ([], failure ''Maximum 3 buttons allowed'')"
      by (simp add: send_message_with_buttons_def)
    then show ?thesis by blast
  next
    case header
    then have "\<forall>to. send_message_with_buttons P wa_client to text buttons header footer reply
                 = ([], failure ''Header text must be max 60 characters'')"
      by (simp add: send_message_with_buttons_def)
    then show ?thesis by blast
  next
    case footer
    then have "\<forall>to. send_message_with_buttons P wa_client to text buttons header footer reply
                 = ([], failure ''Footer text must be max 60 characters'')"
      by (simp add: send_message_with_buttons_def)
    then show ?thesis by blast
  next
    case loop
    show ?thesis
    proof (cases "button_loop buttons []")
      case (Inl d)
      then obtain m where "d = failure m" by (auto dest: button_loop_Inl)
      with Inl loop
      have "\<forall>to. send_message_with_buttons P wa_client to text buttons header footer reply
                 = ([], failure m)"
        by (simp add: send_message_with_buttons_def)
      then show ?thesis by blast
    next
      case (Inr objs)
      with loop
      have "\<forall>to. send_message_with_buttons P wa_client to text buttons header footer reply
         = delivered P wa_client
             (Send_message to text (Some (Buttons objs)) header footer None reply)
             (''Message with buttons sent to '' @ to)
             ''Failed to send message with buttons: ''"
        by (simp add: send_message_with_buttons_def Let_def delivered_def split: outcome.splits)
      then show ?thesis by blast
    qed
  qed
qed

lemma list_run:
  "(\<exists>evs m. calls evs = []
        \<and> (\<forall>to. send_message_with_list P wa_client to text button_text sections header footer
                  reply = (evs, failure m)))
   \<or> (\<exists>objs. \<forall>to. send_message_with_list P wa_client to text button_text sections header
                      footer reply
         = delivered P wa_client
             (Send_message to text (Some (ListButtons objs)) header footer None reply)
             (''Message with list sent to '' @ to)
             ''Failed to send message with list: '')"
proof -
  let ?h = "\<lambda>to. send_message_with_list P wa_client to text button_text sections header footer
                   reply"
  consider (sections) "length sections > 10"
    | (button) "\<not> length sections > 10" "length button_text > 20"
    | (header) "\<not> length sections > 10" "\<not> length button_text > 20" "too_long header 60"
    | (footer) "\<not> length sections > 10" "\<not> length button_text > 20" "\<not> too_long header 60"
        "too_long footer 60"
    | (rows) "\<not> length sections > 10" "\<not> length button_text > 20" "\<not> too_long header 60"
        "\<not> too_long footer 60"
    by blast
  then have "(\<exists>evs m. calls evs = [] \<and> (\<forall>to. ?h to = (evs, failure m)))
           \<or> (\<exists>objs. \<forall>to. ?h to = delivered P wa_client
                 (Send_message to text (Some (ListButtons objs)) header footer None reply)
                 (''Message with list sent to '' @ to)
                 ''Failed to send message with list: '')"
  proof cases
    case sections
    then have "\<forall>to. ?h to = ([], failure ''Maximum 10 sections allowed'')"
      by (simp add: send_message_with_list_def)
    then show ?thesis by (intro disjI1) (rule exI [of _ "[]"], auto)
  next
    case button
    then have "\<forall>to. ?h to = ([], failure ''Button text must be max 20 characters'')"
      by (simp add: send_message_with_list_def)
    then show ?thesis by (intro disjI1) (rule exI [of _ "[]"], auto)
  next
    case header
    then have "\<forall>to. ?h to = ([], failure ''Header text must be max 60 characters'')"
      by (simp add: send_message_with_list_def)
    then show ?thesis by (intro disjI1) (rule exI [of _ "[]"], auto)
  next
    case footer
    then have "\<forall>to. ?h to = ([], failure ''Footer text must be max 60 characters'')"
      by (simp add: send_message_with_list_def)
    then show ?thesis by (intro disjI1) (rule exI [of _ "[]"], auto)
  next
    case rows
    show ?thesis
    proof (cases "total_row_count sections")
      case (Inl e)
      with rows
      have "\<forall>to. ?h to
              = ([Log ERROR (''Failed to send message with list: '' @ str_fault P e)],
                 failure (str_fault P e))"
        by (simp add: send_message_with_list_def)
      then show ?thesis
        by (intro disjI1)
           (rule exI [of _ "[Log ERROR (''Failed to send message with list: '' @ str_fault P e)]"],
            auto)
    next
      case (Inr row_count)
      show ?thesis
      proof (cases "row_count > 10")
        case True
        with rows Inr
        have "\<forall>to. ?h to = ([], failure ''Maximum 10 rows total across all sections'')"
          by (simp add: send_message_with_list_def)
        then show ?thesis by (intro disjI1) (rule exI [of _ "[]"], auto)
      next
        case False
        show ?thesis
        proof (cases "section_loop P sections []")
          case (Continue section_objects)
          with rows Inr False
          have "\<forall>to. ?h to = delivered P wa_client
                 (Send_message to text
                    (Some (ListButtons (SectionList button_text section_objects)))
                    header footer None reply)
                 (''Message with list sent to '' @ to)
                 ''Failed to send message with list: ''"
            by (simp add: send_message_with_list_def Let_def delivered_def split: outcome.splits)
          then show ?thesis by blast
        next
          case (Return d)
          then obtain m where "d = failure m" by (auto dest: section_loop_Return)
          with Return rows Inr False
          have "\<forall>to. ?h to = ([], failure m)"
            by (simp add: send_message_with_list_def)
          then show ?thesis by (intro disjI1) (rule exI [of _ "[]"], auto)
        next
          case (Raise e)
          with rows Inr False
          have "\<forall>to. ?h to
              = ([Log ERROR (''Failed to send message with list: '' @ str_fault P e)],
                 failure (str_fault P e))"
            by (simp add: send_message_with_list_def)
          then show ?thesis
            by (intro disjI1)
               (rule exI [of _ "[Log ERROR (''Failed to send message with list: ''
                                            @ str_fault P e)]"],
                auto)
        qed
      qed
    qed
  qed
  then show ?thesis .
qed

lemmas handler_defs =
  send_message_def send_image_def send_video_def send_document_def send_audio_def
  send_sticker_def send_location_def request_location_def send_contact_def
  send_reaction_def remove_reaction_def mark_message_as_read_def indicate_typing_def
  upload_media_def send_template_def get_templates_def


lemma delivered_calls: "calls (fst (delivered P wa_client req info err)) = [req]"
  by (cases "wa_client req") (simp_all add: delivered_def)












section \<open>The message identifier and the typing indicator\<close>






text \<open>
  Claim C10. Whenever the call of the client in \<open>indicate_typing\<close> returns, the envelope
  is \<open>success: True\<close>, \<open>typing_indicated\<close> the \<open>success\<close> attribute of the result (its
  truth value when it has no such attribute) and \<open>message_id\<close> the message id given: the
  top-level \<open>success\<close> does not depend on the result. In the run below the result is falsy
  and its \<open>success\<close> attribute is false, and the envelope still says \<open>success: True\<close>.
\<close>

theorem indicate_typing_reports_call_success:
  assumes "wa_client (Indicate_typing message_id sender) = Returns result"
  shows "snd (indicate_typing P wa_client message_id sender)
           = [(''success'', PBool True),
              (''typing_indicated'',
                 (case py_attr result ''success'' of
                    Some v \<Rightarrow> v
                  | None \<Rightarrow> PBool (py_bool result))),
              (''message_id'', PStr message_id)]"
  using assms by (simp add: indicate_typing_def py_getattr_def)

theorem indicate_typing_reports_call_success_witness:
  "snd (indicate_typing demo_python typing_client ''wamid.in'' None)
     = [(''success'', PBool True), (''typing_indicated'', PBool False),
        (''message_id'', PStr ''wamid.in'')]
   \<and> snd (indicate_typing demo_python (raising_client ''expired'') ''wamid.in'' None)
     = [(''success'', PBool False), (''error'', PStr ''expired'')]"
proof -
  have r: "typing_client (Indicate_typing ''wamid.in'' None) = Returns typing_result"
    by (simp add: typing_client_def)
  show ?thesis
    using indicate_typing_reports_call_success
            [of typing_client "''wamid.in''" None typing_result demo_python, OF r]
    by (simp add: typing_result_def indicate_typing_def raising_client_def failure_def)
qed

section \<open>The recipient\<close>

lemma interactive_reach:
  "(calls (fst (send_message_with_buttons P wa_client to text buttons header footer reply)) = [])
     = (calls (fst (send_message_with_buttons P wa_client to2 text buttons header footer reply))
          = [])"
  "(calls (fst (send_message_with_list P wa_client to text button_text sections header footer
                  reply)) = [])
     = (calls (fst (send_message_with_list P wa_client to2 text button_text sections header
                      footer reply)) = [])"
  using buttons_run [of P wa_client "text" buttons header footer reply]
        list_run [of P wa_client "text" button_text sections header footer reply]
  by (auto simp: delivered_calls)

lemma interactive_to:
  "req \<in> set (calls (fst (send_message_with_buttons P wa_client to text buttons header footer
                             reply))) \<Longrightarrow> request_to req = Some to"
  "req \<in> set (calls (fst (send_message_with_list P wa_client to text button_text sections header
                             footer reply))) \<Longrightarrow> request_to req = Some to"
  using buttons_run [of P wa_client "text" buttons header footer reply]
        list_run [of P wa_client "text" button_text sections header footer reply]
  by (auto simp: delivered_calls)

text \<open>
  Claim C8, as amended. No send operation validates the recipient, not even for
  emptiness: every call of the client that a send operation makes carries the recipient it
  was given, unchanged; whether the client is reached does not depend on the recipient;
  and every tool other than the two interactive ones always reaches the client. Recipient
  correctness, emptiness included, is left entirely to the transport.
\<close>

theorem recipient_not_validated:
  assumes "recipient c = Some to"
  shows "(\<forall>req \<in> set (calls (fst (invoke P wa_client c))). request_to req = Some to)
       \<and> (\<forall>to2. (calls (fst (invoke P wa_client (with_recipient to2 c))) = [])
                   = (calls (fst (invoke P wa_client c)) = []))
       \<and> (\<not> validates_payload c \<longrightarrow> length (calls (fst (invoke P wa_client c))) = 1)"
proof (intro conjI)
  show "\<forall>req \<in> set (calls (fst (invoke P wa_client c))). request_to req = Some to"
    using assms
    by (cases c) (auto simp: handler_defs Let_def interactive_to split: outcome.splits)
  show "\<forall>to2. (calls (fst (invoke P wa_client (with_recipient to2 c))) = [])
                   = (calls (fst (invoke P wa_client c)) = [])"
    using assms
    by (cases c) (auto simp: handler_defs Let_def interactive_reach split: outcome.splits)
  show "\<not> validates_payload c \<longrightarrow> length (calls (fst (invoke P wa_client c))) = 1"
    by (cases c) (auto simp: handler_defs Let_def split: outcome.splits sum.splits)
qed

theorem recipient_not_validated_witness:
  "calls (fst (invoke demo_python demo_client
                 (Tool_send_sticker [] ''https://example.org/s.webp'' None)))
     = [Send_sticker [] ''https://example.org/s.webp'' None]
   \<and> request_to (Send_sticker [] ''https://example.org/s.webp'' None) = Some []"
proof -
  have r: "recipient (Tool_send_sticker [] ''https://example.org/s.webp'' None) = Some []"
    by simp
  show ?thesis
    using recipient_not_validated [OF r, of demo_python demo_client]
    by (simp add: send_sticker_def demo_client_def)
qed

text \<open>
  The claim as stated says that an empty recipient fails without reaching the transport.
  \<open>send_message\<close> with the empty recipient calls the client with \<open>to=""\<close> and returns a
  success envelope.
\<close>

theorem empty_recipient_counterexample:
  "send_message demo_python demo_client [] ''hi'' None None False None
     = ([Call (Send_message [] ''hi'' None None None (Some False) None),
         Log INFO ''Message sent to ''],
        [(''success'', PBool True), (''message_id'', PStr ''wamid.1''), (''to'', PStr [])])"
  by (simp add: send_message_def demo_client_def sent_message_def message_id_of_def
        py_getattr_def)

section \<open>Startup\<close>





end
